theory Spec2Isabelle
  imports Complex_Main
begin

section \<open>Numeric model\<close>

text \<open>
  The driver \<open>output_pattern.py\<close> works on numpy arrays of floats. Prices are positive
  and finite, so log-prices and increments are modelled as real numbers. The truncation
  threshold starts as \<open>np.inf\<close> and may become \<open>nan\<close> (\<open>np.std\<close> of an empty array,
  \<open>np.sqrt\<close> of a negative number), so it is a real extended by those two values.
\<close>

datatype fl = Fin real | PInf | NaN

datatype error = ConfigurationError | InsufficientDataError | ValueError

text \<open>\<open>k * v\<close> for a positive integer literal \<open>k\<close> (3 or 5 in the source).\<close>

fun fl_scale :: "real \<Rightarrow> fl \<Rightarrow> fl" where
  "fl_scale k (Fin v) = Fin (k * v)"
| "fl_scale k PInf = (if k > 0 then PInf else NaN)"
| "fl_scale k NaN = NaN"

text \<open>\<open>x > t\<close> with IEEE semantics: nothing exceeds infinity, every comparison with nan is False.\<close>

fun fl_gt :: "real \<Rightarrow> fl \<Rightarrow> bool" where
  "fl_gt x (Fin t) = (x > t)"
| "fl_gt x PInf = False"
| "fl_gt x NaN = False"

text \<open>\<open>x <= t\<close> with IEEE semantics.\<close>

fun fl_le :: "real \<Rightarrow> fl \<Rightarrow> bool" where
  "fl_le x (Fin t) = (x \<le> t)"
| "fl_le x PInf = True"
| "fl_le x NaN = False"

text \<open>\<open>np.sqrt\<close>: nan below zero.\<close>

definition np_sqrt :: "real \<Rightarrow> fl" where
  "np_sqrt v = (if v < 0 then NaN else Fin (sqrt v))"

text \<open>\<open>np.mean\<close> and \<open>np.std\<close> (default \<open>ddof=0\<close>: the squared deviations are divided by
  the number of elements); both are nan on an empty array.\<close>

definition mean :: "real list \<Rightarrow> real" where
  "mean xs = sum_list xs / real (length xs)"

definition np_std :: "real list \<Rightarrow> fl" where
  "np_std xs =
     (if xs = [] then NaN
      else Fin (sqrt (sum_list (map (\<lambda>x. (x - mean xs)\<^sup>2) xs) / real (length xs))))"

section \<open>Log increments (lines 58-59)\<close>

text \<open>\<open>log_price = np.log(price_array)\<close>\<close>

definition log_price :: "real list \<Rightarrow> real list" where
  "log_price price_array = map ln price_array"

text \<open>\<open>increments = log_price[1:] - log_price[:-1]\<close>\<close>

definition increments :: "real list \<Rightarrow> real list" where
  "increments lp = map (\<lambda>(a, b). a - b) (zip (tl lp) (butlast lp))"

section \<open>Truncation threshold (lines 61-72)\<close>

text \<open>
  \<open>bipower_average_V\<close> is imported from module \<open>volatility\<close>; it is the parameter \<open>bav\<close>
  here, called with the arguments the driver passes.
\<close>

type_synonym bav_fun = "real list \<Rightarrow> int \<Rightarrow> real \<Rightarrow> error + real"

definition bivar :: "real \<Rightarrow> bav_fun \<Rightarrow> real list \<Rightarrow> int \<Rightarrow> real \<Rightarrow> error + fl" where
  "bivar k bav lp window delta =
     (case bav lp window delta of
        Inl e \<Rightarrow> Inl e
      | Inr v \<Rightarrow> Inr (fl_scale k (np_sqrt (v * delta))))"

definition truncationValue ::
  "bav_fun \<Rightarrow> string \<Rightarrow> real list \<Rightarrow> int \<Rightarrow> real \<Rightarrow> error + fl" where
  "truncationValue bav truncation_method lp window delta =
     (if truncation_method = ''STD3'' then Inr (fl_scale 3 (np_std (increments lp)))
      else if truncation_method = ''STD5'' then Inr (fl_scale 5 (np_std (increments lp)))
      else if truncation_method = ''BIVAR3'' then bivar 3 bav lp window delta
      else if truncation_method = ''BIVAR5'' then bivar 5 bav lp window delta
      else Inr PInf)"

section \<open>Truncation points (lines 74-75, 98)\<close>

text \<open>\<open>truncated_points = np.abs(increments) > truncationValue\<close>\<close>

definition truncated_points :: "real list \<Rightarrow> fl \<Rightarrow> bool list" where
  "truncated_points incs thr = map (\<lambda>x. fl_gt \<bar>x\<bar> thr) incs"

text \<open>\<open>np.where(flags)[0]\<close>: the positions of the True entries, ascending.\<close>

definition np_where :: "bool list \<Rightarrow> nat list" where
  "np_where flags = filter (\<lambda>i. flags ! i) [0..<length flags]"

text \<open>\<open>truncated_indices = np.where(truncated_points)[0] + 1\<close>\<close>

definition truncated_indices :: "real list \<Rightarrow> fl \<Rightarrow> nat list" where
  "truncated_indices price_array thr =
     map (\<lambda>i. i + 1) (np_where (truncated_points (increments (log_price price_array)) thr))"

section \<open>Python slices and ranges\<close>

text \<open>A slice bound as Python normalises it: a negative bound counts from the end, and
  both ends are clamped to the list.\<close>

definition norm_index :: "nat \<Rightarrow> int \<Rightarrow> nat" where
  "norm_index n i = (if i < 0 then nat (max 0 (int n + i)) else min n (nat i))"

text \<open>\<open>xs[a:b]\<close>\<close>

definition py_slice :: "'a list \<Rightarrow> int \<Rightarrow> int \<Rightarrow> 'a list" where
  "py_slice xs a b =
     (let lo = norm_index (length xs) a; hi = norm_index (length xs) b
      in take (hi - lo) (drop lo xs))"

text \<open>\<open>range(start, stop, step)\<close>: ascending for a positive step, descending for a negative
  one, ValueError for step 0.\<close>

function range_up :: "int \<Rightarrow> int \<Rightarrow> int \<Rightarrow> int list" where
  "range_up start stop step =
     (if 0 < step \<and> start < stop then start # range_up (start + step) stop step else [])"
  by pat_completeness auto
termination
  by (relation "measure (\<lambda>(start, stop, step). nat (stop - start))") auto

function range_down :: "int \<Rightarrow> int \<Rightarrow> int \<Rightarrow> int list" where
  "range_down start stop step =
     (if step < 0 \<and> stop < start then start # range_down (start + step) stop step else [])"
  by pat_completeness auto
termination
  by (relation "measure (\<lambda>(start, stop, step). nat (start - stop))") auto

definition py_range :: "int \<Rightarrow> int \<Rightarrow> int \<Rightarrow> error + int list" where
  "py_range start stop step =
     (if step = 0 then Inl ValueError
      else if 0 < step then Inr (range_up start stop step)
      else Inr (range_down start stop step))"

section \<open>Timestamps of the volatility curve (line 79)\<close>

text \<open>\<open>vol_DT = price.get_DT()[:len(price_array) - window]\<close>\<close>

definition vol_DT :: "'t list \<Rightarrow> real list \<Rightarrow> int \<Rightarrow> 't list" where
  "vol_DT DT price_array window = py_slice DT 0 (int (length price_array) - window)"

section \<open>Rolling patterns (lines 134-137)\<close>

text \<open>
  \<open>volatility_pattern\<close> is imported from module \<open>volatility\<close>; it is the parameter \<open>pat\<close>,
  which may raise. The loop appends one pattern per start index; the first raise ends it.
\<close>

fun patterns_loop ::
  "('v list \<Rightarrow> error + 'p) \<Rightarrow> 'v list \<Rightarrow> int \<Rightarrow> int list \<Rightarrow> 'p list \<Rightarrow> error + 'p list" where
  "patterns_loop pat all_vols window_pattern [] acc = Inr acc"
| "patterns_loop pat all_vols window_pattern (start # rest) acc =
     (case pat (py_slice all_vols start (start + window_pattern)) of
        Inl e \<Rightarrow> Inl e
      | Inr p \<Rightarrow> patterns_loop pat all_vols window_pattern rest (acc @ [p]))"

definition small_patterns ::
  "('v list \<Rightarrow> error + 'p) \<Rightarrow> 'v list \<Rightarrow> int \<Rightarrow> error + 'p list" where
  "small_patterns pat all_vols window_pattern =
     (case py_range 0 (int (length all_vols) - window_pattern + 1) window_pattern of
        Inl e \<Rightarrow> Inl e
      | Inr starts \<Rightarrow> patterns_loop pat all_vols window_pattern starts [])"

text \<open>The values \<open>slice_vols\<close> takes over the loop: what is passed to \<open>volatility_pattern\<close>
  when no call raises.\<close>

definition slice_vols :: "'v list \<Rightarrow> int \<Rightarrow> error + 'v list list" where
  "slice_vols all_vols window_pattern =
     (case py_range 0 (int (length all_vols) - window_pattern + 1) window_pattern of
        Inl e \<Rightarrow> Inl e
      | Inr starts \<Rightarrow>
          Inr (map (\<lambda>start. py_slice all_vols start (start + window_pattern)) starts))"

section \<open>The specification's reading of the pipeline\<close>

text \<open>The rolling blocks in the specification's words: consecutive, non-overlapping blocks
  of \<open>n\<close> elements from index 0, a shorter trailing block dropped.\<close>

function blocks_spec :: "nat \<Rightarrow> 'a list \<Rightarrow> 'a list list" where
  "blocks_spec n xs =
     (if n = 0 \<or> length xs < n then [] else take n xs # blocks_spec n (drop n xs))"
  by pat_completeness auto
termination
  by (relation "measure (\<lambda>(n, xs). length xs)") auto

text \<open>A pattern function applied to each block in turn, the first failure returned.\<close>

fun collect :: "('a \<Rightarrow> error + 'b) \<Rightarrow> 'a list \<Rightarrow> error + 'b list" where
  "collect f [] = Inr []"
| "collect f (x # xs) =
     (case f x of
        Inl e \<Rightarrow> Inl e
      | Inr y \<Rightarrow> (case collect f xs of Inl e \<Rightarrow> Inl e | Inr ys \<Rightarrow> Inr (y # ys)))"

text \<open>The standard deviation with Bessel's correction (the squared deviations divided by
  \<open>n - 1\<close>), the usual meaning of "sample standard deviation".\<close>

definition sample_std_spec :: "real list \<Rightarrow> real" where
  "sample_std_spec xs = sqrt (sum_list (map (\<lambda>x. (x - mean xs)\<^sup>2) xs) / (real (length xs) - 1))"

text \<open>
  Modelled from the spec: \<open>VolatilityEstimator.compute\<close> of module \<open>volatility\<close>, which is
  not among the sources. Section 4.4: for each window position \<open>i = 0..N-window-1\<close> the
  window is the \<open>window\<close> consecutive increments starting at \<open>i\<close>; the squares of the
  increments whose absolute value is at most the threshold are summed and divided by
  \<open>window * delta\<close>; a window whose increments are all truncated has no estimate; the
  computation fails with InsufficientDataError if \<open>N \<le> window\<close>, and a non-positive
  window is a ConfigurationError (section 7). The threshold at position \<open>i\<close> is \<open>thr i\<close>.
\<close>

definition retained_sum_sq :: "fl \<Rightarrow> real list \<Rightarrow> real" where
  "retained_sum_sq thr w = sum_list (map (\<lambda>x. x\<^sup>2) (filter (\<lambda>x. fl_le \<bar>x\<bar> thr) w))"

definition window_estimate :: "fl \<Rightarrow> nat \<Rightarrow> real \<Rightarrow> real list \<Rightarrow> real option" where
  "window_estimate thr window delta w =
     (if filter (\<lambda>x. fl_le \<bar>x\<bar> thr) w = [] then None
      else Some (retained_sum_sq thr w / (real window * delta)))"

definition compute_spec :: "(nat \<Rightarrow> fl) \<Rightarrow> int \<Rightarrow> real \<Rightarrow> real list \<Rightarrow> error + real option list" where
  "compute_spec thr window delta price_array =
     (if window \<le> 0 then Inl ConfigurationError
      else if int (length price_array) \<le> window then Inl InsufficientDataError
      else Inr (map (\<lambda>i. window_estimate (thr i) (nat window) delta
                           (take (nat window) (drop i (increments (log_price price_array)))))
                    [0..<length price_array - nat window]))"

text \<open>The number of increments the driver leaves unflagged.\<close>

definition count_retained :: "real list \<Rightarrow> fl \<Rightarrow> nat" where
  "count_retained incs thr = length (filter Not (truncated_points incs thr))"

section \<open>Auxiliary facts\<close>

lemma length_increments: "length (increments lp) = length lp - 1"
  by (simp add: increments_def)

lemma np_std_cases: "np_std xs = NaN \<or> (\<exists>s\<ge>0. np_std xs = Fin s)"
  by (auto simp add: np_std_def intro!: divide_nonneg_nonneg sum_list_nonneg)

lemma fl_gt_le: "thr \<noteq> NaN \<Longrightarrow> fl_gt x thr = (\<not> fl_le x thr)"
  by (cases thr) auto

lemma sum_list_filter_nth:
  "sum_list (map f (filter P xs)) = (\<Sum>i | i < length xs \<and> P (xs ! i). f (xs ! i))"
proof (induction xs rule: rev_induct)
  case Nil
  then show ?case by simp
next
  case (snoc x xs)
  let ?A = "{i. i < length xs \<and> P (xs ! i)}"
  have fin: "finite ?A" by simp
  have eq: "(\<Sum>i\<in>?A. f ((xs @ [x]) ! i)) = (\<Sum>i\<in>?A. f (xs ! i))"
    by (rule sum.cong) (auto simp add: nth_append)
  have split: "{i. i < length (xs @ [x]) \<and> P ((xs @ [x]) ! i)} =
      (if P x then insert (length xs) ?A else ?A)"
    by (auto simp add: nth_append less_Suc_eq)
  have "(\<Sum>i | i < length (xs @ [x]) \<and> P ((xs @ [x]) ! i). f ((xs @ [x]) ! i))
      = (if P x then f x + (\<Sum>i\<in>?A. f (xs ! i)) else (\<Sum>i\<in>?A. f (xs ! i)))"
    unfolding split using fin eq by (simp add: nth_append)
  then show ?case
    using snoc.IH by (simp add: add.commute)
qed

text \<open>
  Claim C1. For a threshold that is a number or infinity, the driver flags an increment as
  truncated exactly when its absolute value exceeds the threshold, so the increments left
  unflagged are exactly those with absolute value at most the threshold; the retained sum
  of squares is the sum of the unmodified squares of the unflagged increments, the flagged
  ones contributing nothing.
\<close>

theorem truncation_rule:
  assumes "thr \<noteq> NaN"
  shows "length (truncated_points incs thr) = length incs
    \<and> (\<forall>i<length incs. truncated_points incs thr ! i = fl_gt \<bar>incs ! i\<bar> thr)
    \<and> (\<forall>i<length incs. (\<not> truncated_points incs thr ! i) = fl_le \<bar>incs ! i\<bar> thr)
    \<and> retained_sum_sq thr incs
        = (\<Sum>i | i < length incs \<and> \<not> truncated_points incs thr ! i. (incs ! i)\<^sup>2)"
proof -
  have a: "\<forall>i<length incs. truncated_points incs thr ! i = fl_gt \<bar>incs ! i\<bar> thr"
    by (simp add: truncated_points_def)
  have b: "\<forall>i<length incs. (\<not> truncated_points incs thr ! i) = fl_le \<bar>incs ! i\<bar> thr"
    using a fl_gt_le [OF assms] by simp
  have "{i. i < length incs \<and> fl_le \<bar>incs ! i\<bar> thr}
      = {i. i < length incs \<and> \<not> truncated_points incs thr ! i}"
    using b by auto
  then have c: "retained_sum_sq thr incs
        = (\<Sum>i | i < length incs \<and> \<not> truncated_points incs thr ! i. (incs ! i)\<^sup>2)"
    unfolding retained_sum_sq_def
    by (simp add: sum_list_filter_nth [of "\<lambda>x. x\<^sup>2" "\<lambda>x. fl_le \<bar>x\<bar> thr" incs])
  show ?thesis using a b c by (simp add: truncated_points_def)
qed

theorem truncation_rule_witness:
  "Fin 1 \<noteq> NaN
    \<and> truncated_points [1/2, -2, 1] (Fin 1) = [False, True, False]
    \<and> retained_sum_sq (Fin 1) [1/2, -2, 1] = 5/4"
  using truncation_rule [of "Fin 1" "[1/2, -2, 1]"]
  by (simp add: truncated_points_def retained_sum_sq_def power2_eq_square)

lemma truncated_points_PInf: "truncated_points incs PInf = replicate (length incs) False"
  by (simp add: truncated_points_def map_replicate_const)

text \<open>
  Claim C2, as stated, fails: for the unrecognised method name \<open>STD4\<close> the driver's
  threshold selection raises nothing and leaves the threshold at its initial value,
  infinity.
\<close>

theorem unknown_method_counterexample:
  "truncationValue (\<lambda>lp w d. Inr 0) ''STD4'' [0, 1] 300 1 = Inr PInf
    \<and> truncationValue (\<lambda>lp w d. Inr 0) ''STD4'' [0, 1] 300 1 \<noteq> Inl ConfigurationError"
  by (simp add: truncationValue_def)

text \<open>
  Claim C2, amended. For every method name other than STD3, STD5, BIVAR3 and BIVAR5 the
  driver's threshold selection returns the initial threshold \<open>np.inf\<close> without an error,
  and under it no increment is flagged as truncated.
\<close>

theorem unknown_method_no_truncation:
  assumes "truncation_method \<notin> {''STD3'', ''STD5'', ''BIVAR3'', ''BIVAR5''}"
  shows "truncationValue bav truncation_method lp window delta = Inr PInf
    \<and> truncated_points (increments lp) PInf = replicate (length lp - 1) False
    \<and> np_where (truncated_points (increments lp) PInf) = []"
  using assms
  by (simp add: truncationValue_def truncated_points_PInf length_increments np_where_def)

theorem unknown_method_no_truncation_witness:
  "''STD4'' \<notin> {''STD3'', ''STD5'', ''BIVAR3'', ''BIVAR5''}
    \<and> truncationValue (\<lambda>lp w d. Inr 0) ''STD4'' [0, 1] 300 1 = Inr PInf
    \<and> truncated_points (increments [0, 1]) PInf = [False]"
  using unknown_method_no_truncation [of "''STD4''" "\<lambda>lp w d. Inr 0" "[0, 1]" 300 1]
  by simp

text \<open>
  Claim C3, as stated, fails: on the log-prices 0, 0, 2 (increments 0 and 2) the STD3
  threshold is 3, three times the standard deviation with divisor \<open>n\<close>, and not three
  times the sample standard deviation with divisor \<open>n - 1\<close>, which is \<open>3 * sqrt 2\<close>.
\<close>

theorem fixed_std_counterexample:
  "truncationValue (\<lambda>lp w d. Inr 0) ''STD3'' [0, 0, 2] 300 1 = Inr (Fin 3)
    \<and> truncationValue (\<lambda>lp w d. Inr 0) ''STD3'' [0, 0, 2] 300 1
        \<noteq> Inr (Fin (3 * sample_std_spec (increments [0, 0, 2])))"
  by (simp add: truncationValue_def increments_def np_std_def mean_def sample_std_spec_def)

text \<open>
  Claim C3, amended. For a non-empty increment sequence, STD3 and STD5 give the threshold
  \<open>3 * s\<close> and \<open>5 * s\<close>, where \<open>s \<ge> 0\<close> is the population standard deviation of the
  whole increment sequence (\<open>s\<^sup>2\<close> times the number of increments is the sum of the squared
  deviations from the mean); it is one scalar, the same for every window, delta and
  bipower averager.
\<close>

theorem fixed_std_threshold:
  assumes "increments lp \<noteq> []"
  shows "\<exists>s\<ge>0. s\<^sup>2 * real (length (increments lp))
            = (\<Sum>x\<leftarrow>increments lp. (x - mean (increments lp))\<^sup>2)
      \<and> (\<forall>bav window delta.
            truncationValue bav ''STD3'' lp window delta = Inr (Fin (3 * s))
          \<and> truncationValue bav ''STD5'' lp window delta = Inr (Fin (5 * s)))"
proof -
  let ?xs = "increments lp"
  let ?v = "(\<Sum>x\<leftarrow>?xs. (x - mean ?xs)\<^sup>2) / real (length ?xs)"
  have nn: "0 \<le> ?v"
    by (intro divide_nonneg_nonneg sum_list_nonneg) auto
  have len: "real (length ?xs) \<noteq> 0" using assms by simp
  have "(sqrt ?v)\<^sup>2 * real (length ?xs) = (\<Sum>x\<leftarrow>?xs. (x - mean ?xs)\<^sup>2)"
    using nn len by simp
  moreover have "0 \<le> sqrt ?v" using nn by simp
  moreover have "\<forall>bav window delta.
            truncationValue bav ''STD3'' lp window delta = Inr (Fin (3 * sqrt ?v))
          \<and> truncationValue bav ''STD5'' lp window delta = Inr (Fin (5 * sqrt ?v))"
    using assms by (simp add: truncationValue_def np_std_def)
  ultimately show ?thesis by blast
qed

theorem fixed_std_threshold_witness:
  "increments [0, 0, 2] \<noteq> []
    \<and> (\<exists>s\<ge>0. s\<^sup>2 * real (length (increments [0, 0, 2]))
            = (\<Sum>x\<leftarrow>increments [0, 0, 2]. (x - mean (increments [0, 0, 2]))\<^sup>2)
      \<and> (\<forall>bav window delta.
            truncationValue bav ''STD3'' [0, 0, 2] window delta = Inr (Fin (3 * s))
          \<and> truncationValue bav ''STD5'' [0, 0, 2] window delta = Inr (Fin (5 * s))))"
proof -
  have h: "increments [0, 0, 2 :: real] \<noteq> []" by (simp add: increments_def)
  show ?thesis using h fixed_std_threshold [OF h] by simp
qed

text \<open>
  Claim C4. When the bipower averager, called on the log-prices with the driver's window
  and delta, returns the variance \<open>v\<close> (with \<open>v * delta\<close> not negative), BIVAR3 and BIVAR5
  give the threshold \<open>3 * sqrt (v * delta)\<close> and \<open>5 * sqrt (v * delta)\<close>.
\<close>

theorem adaptive_bipower_threshold:
  assumes "bav lp window delta = Inr v" and "0 \<le> v * delta"
  shows "truncationValue bav ''BIVAR3'' lp window delta = Inr (Fin (3 * sqrt (v * delta)))
    \<and> truncationValue bav ''BIVAR5'' lp window delta = Inr (Fin (5 * sqrt (v * delta)))"
  using assms by (simp add: truncationValue_def bivar_def np_sqrt_def)

theorem adaptive_bipower_threshold_witness:
  "(\<lambda>lp w d. Inr (4 / d)) [0, 1, 3] 300 (1/4) = (Inr 16 :: error + real) \<and> (0::real) \<le> 16 * (1/4)
    \<and> truncationValue (\<lambda>lp w d. Inr (4 / d)) ''BIVAR3'' [0, 1, 3] 300 (1/4) = Inr (Fin 6)
    \<and> truncationValue (\<lambda>lp w d. Inr (4 / d)) ''BIVAR5'' [0, 1, 3] 300 (1/4) = Inr (Fin 10)"
  using adaptive_bipower_threshold [of "\<lambda>lp w d. Inr (4 / d)" "[0, 1, 3]" 300 "1/4" 16]
  by simp

lemma fl_gt_scale_mono:
  assumes "k \<le> k'" and "fl_gt x (fl_scale k' (np_std incs))"
  shows "fl_gt x (fl_scale k (np_std incs))"
proof -
  consider "np_std incs = NaN" | s where "0 \<le> s" "np_std incs = Fin s"
    using np_std_cases [of incs] by blast
  then show ?thesis
  proof cases
    case 1
    then show ?thesis using assms by simp
  next
    case 2
    have "k * s \<le> k' * s" using assms(1) 2(1) by (rule mult_right_mono)
    then show ?thesis using assms(2) 2(2) by simp
  qed
qed

lemma count_retained_filter:
  "count_retained incs thr = length (filter (\<lambda>x. \<not> fl_gt \<bar>x\<bar> thr) incs)"
  by (simp add: count_retained_def truncated_points_def filter_map comp_def)

lemma length_filter_mono:
  "(\<And>x. x \<in> set xs \<Longrightarrow> P x \<Longrightarrow> Q x) \<Longrightarrow> length (filter P xs) \<le> length (filter Q xs)"
  by (induction xs) auto

text \<open>
  Claim C5. With the threshold \<open>k * np.std(increments)\<close>, every increment left unflagged
  under a multiplier \<open>k\<close> is left unflagged under any larger multiplier \<open>k'\<close>, so the
  number of retained increments does not decrease; in particular from STD3 to STD5.
\<close>

theorem multiplier_monotone:
  assumes "k \<le> k'"
  shows "(\<forall>i<length incs. \<not> truncated_points incs (fl_scale k (np_std incs)) ! i
              \<longrightarrow> \<not> truncated_points incs (fl_scale k' (np_std incs)) ! i)
    \<and> count_retained incs (fl_scale k (np_std incs))
        \<le> count_retained incs (fl_scale k' (np_std incs))
    \<and> (\<forall>t3 t5. truncationValue bav ''STD3'' lp window delta = Inr t3
          \<and> truncationValue bav ''STD5'' lp window delta = Inr t5
          \<longrightarrow> count_retained (increments lp) t3 \<le> count_retained (increments lp) t5
            \<and> (\<forall>i<length (increments lp). \<not> truncated_points (increments lp) t3 ! i
                  \<longrightarrow> \<not> truncated_points (increments lp) t5 ! i))"
proof -
  have a: "\<And>k k' incs. k \<le> k' \<Longrightarrow>
      \<forall>i<length incs. \<not> truncated_points incs (fl_scale k (np_std incs)) ! i
              \<longrightarrow> \<not> truncated_points incs (fl_scale k' (np_std incs)) ! i"
    using fl_gt_scale_mono by (auto simp add: truncated_points_def)
  have b: "\<And>k k' incs. k \<le> k' \<Longrightarrow> count_retained incs (fl_scale k (np_std incs))
        \<le> count_retained incs (fl_scale k' (np_std incs))"
    unfolding count_retained_filter
    by (rule length_filter_mono) (use fl_gt_scale_mono in blast)
  have c: "(3::real) \<le> 5" by simp
  show ?thesis
    using a [OF assms, of incs] b [OF assms, of incs] a [OF c, of "increments lp"]
      b [OF c, of "increments lp"]
    by (simp add: truncationValue_def)
qed

theorem multiplier_monotone_witness:
  "(3::real) \<le> 5
    \<and> fl_scale 3 (np_std [0, 0, 0, 0, 0, 0, 0, 0, 17, 0, 0, 0, 0, 0, 0, 0, 0]) = Fin 12 \<and> fl_scale 5 (np_std [0, 0, 0, 0, 0, 0, 0, 0, 17, 0, 0, 0, 0, 0, 0, 0, 0]) = Fin 20
    \<and> count_retained [0, 0, 0, 0, 0, 0, 0, 0, 17, 0, 0, 0, 0, 0, 0, 0, 0] (fl_scale 3 (np_std [0, 0, 0, 0, 0, 0, 0, 0, 17, 0, 0, 0, 0, 0, 0, 0, 0])) = 16
    \<and> count_retained [0, 0, 0, 0, 0, 0, 0, 0, 17, 0, 0, 0, 0, 0, 0, 0, 0] (fl_scale 5 (np_std [0, 0, 0, 0, 0, 0, 0, 0, 17, 0, 0, 0, 0, 0, 0, 0, 0])) = 17
    \<and> count_retained [0, 0, 0, 0, 0, 0, 0, 0, 17, 0, 0, 0, 0, 0, 0, 0, 0] (fl_scale 3 (np_std [0, 0, 0, 0, 0, 0, 0, 0, 17, 0, 0, 0, 0, 0, 0, 0, 0])) \<le> count_retained [0, 0, 0, 0, 0, 0, 0, 0, 17, 0, 0, 0, 0, 0, 0, 0, 0] (fl_scale 5 (np_std [0, 0, 0, 0, 0, 0, 0, 0, 17, 0, 0, 0, 0, 0, 0, 0, 0]))"
proof -
  have s: "np_std [0, 0, 0, 0, 0, 0, 0, 0, 17, 0, 0, 0, 0, 0, 0, 0, 0] = Fin 4"
    by (simp add: np_std_def mean_def)
  have c3: "count_retained [0, 0, 0, 0, 0, 0, 0, 0, 17, 0, 0, 0, 0, 0, 0, 0, 0] (Fin 12) = 16"
    by (simp add: count_retained_def truncated_points_def)
  have c5: "count_retained [0, 0, 0, 0, 0, 0, 0, 0, 17, 0, 0, 0, 0, 0, 0, 0, 0] (Fin 20) = 17"
    by (simp add: count_retained_def truncated_points_def)
  have h: "(3::real) \<le> 5" by simp
  show ?thesis
    using s c3 c5 multiplier_monotone [OF h, of "[0, 0, 0, 0, 0, 0, 0, 0, 17, 0, 0, 0, 0, 0, 0, 0, 0]"] by simp
qed

lemma np_where_bound: "i \<in> set (np_where flags) \<Longrightarrow> i < length flags"
  by (simp add: np_where_def)

text \<open>
  Claim C9. Every entry of \<open>truncated_indices\<close> is at least 1 and at most
  \<open>len(price_array) - 1\<close>, whatever the threshold: it is a valid index of the price array
  and of a timestamp column of the same length.
\<close>

theorem truncated_indices_in_bounds:
  assumes "idx \<in> set (truncated_indices price_array thr)"
  shows "0 < idx \<and> idx \<le> length price_array - 1 \<and> idx < length price_array"
proof -
  obtain i where i: "idx = i + 1"
    "i \<in> set (np_where (truncated_points (increments (log_price price_array)) thr))"
    using assms by (auto simp add: truncated_indices_def)
  have "i < length price_array - 1"
    using np_where_bound [OF i(2)]
    by (simp add: truncated_points_def length_increments log_price_def)
  then show ?thesis using i(1) by simp
qed

theorem truncated_indices_in_bounds_witness:
  "truncated_indices [1, exp 1, 1] (Fin (1/2)) = [1, 2]
    \<and> 1 \<in> set (truncated_indices [1, exp 1, 1] (Fin (1/2)))
    \<and> (0::nat) < 1 \<and> (1::nat) < length [1, exp 1, 1 :: real]"
proof -
  have e: "truncated_indices [1, exp 1, 1] (Fin (1/2)) = [1, 2]"
    by (simp add: truncated_indices_def np_where_def truncated_points_def increments_def
        log_price_def upt_rec)
  then have m: "1 \<in> set (truncated_indices [1, exp 1, 1] (Fin (1/2)))" by simp
  show ?thesis using e m truncated_indices_in_bounds [OF m] by simp
qed

end
